theory Spec2Isabelle
  imports Main "HOL-Library.Word"
begin

unbundle bit_operations_syntax

section \<open>Keys (edit/reader.go)\<close>

text \<open>
  A Go \<^verbatim>\<open>rune\<close> is an \<^verbatim>\<open>int32\<close>. The decoder only adds \<^verbatim>\<open>0x40\<close> to runes in
  \<^verbatim>\<open>[0x1, 0x1d]\<close> and subtracts \<^verbatim>\<open>'0'\<close> from digits, so no rune arithmetic can
  overflow and runes are modelled as \<open>int\<close>. A rune literal \<^verbatim>\<open>'x'\<close> is written
  \<open>of_char CHR ''x''\<close> or as its code.
\<close>

type_synonym rune = int

text \<open>
  Modelled from the spec: the file declaring \<^verbatim>\<open>Key\<close>, \<^verbatim>\<open>Mod\<close>, the modifier bits,
  the function-key code points and \<^verbatim>\<open>ZeroKey\<close> is not among the sources. A key is a
  code point plus a modifier set drawn from Shift, Alt and Ctrl (the code combines them with
  \<^verbatim>\<open>|=\<close>, so \<^verbatim>\<open>Mod\<close> is a bit mask); the non-character keys occupy a reserved
  range of code points, taken here as the negative numbers; \<^verbatim>\<open>ZeroKey\<close> is the
  zero value \<^verbatim>\<open>Key{}\<close>.
\<close>

type_synonym Mod = "8 word"

record Key =
  rune :: rune
  Mod :: Mod

definition Shift :: Mod where "Shift = 1"
definition Alt :: Mod where "Alt = 2"
definition Ctrl :: Mod where "Ctrl = 4"

definition F1 :: rune where "F1 = - 1"
definition F2 :: rune where "F2 = - 2"
definition F3 :: rune where "F3 = - 3"
definition F4 :: rune where "F4 = - 4"
definition F5 :: rune where "F5 = - 5"
definition F6 :: rune where "F6 = - 6"
definition F7 :: rune where "F7 = - 7"
definition F8 :: rune where "F8 = - 8"
definition F9 :: rune where "F9 = - 9"
definition F10 :: rune where "F10 = - 10"
definition F11 :: rune where "F11 = - 11"
definition F12 :: rune where "F12 = - 12"
definition Up :: rune where "Up = - 13"
definition Down :: rune where "Down = - 14"
definition Right_key :: rune where "Right_key = - 15"
definition Left_key :: rune where "Left_key = - 16"
definition Home :: rune where "Home = - 17"
definition Insert :: rune where "Insert = - 18"
definition Delete :: rune where "Delete = - 19"
definition End_key :: rune where "End_key = - 20"
definition PageUp :: rune where "PageUp = - 21"
definition PageDown :: rune where "PageDown = - 22"
definition Tab :: rune where "Tab = 9"
definition Enter :: rune where "Enter = 13"
definition Backspace :: rune where "Backspace = 127"

lemmas key_defs =
  F1_def F2_def F3_def F4_def F5_def F6_def F7_def F8_def F9_def F10_def F11_def F12_def
  Up_def Down_def Right_key_def Left_key_def Home_def Insert_def Delete_def End_key_def
  PageUp_def PageDown_def Tab_def Enter_def Backspace_def

lemmas mod_defs = Shift_def Alt_def Ctrl_def

definition ZeroKey :: Key where
  "ZeroKey = \<lparr>rune = 0, Mod = 0\<rparr>"

section \<open>The timed byte source\<close>

datatype error = AsyncTimeout | BadEscSeq | EOF | IOError nat

text \<open>
  What the terminal delivers, in order: a rune, a silence longer than any non-negative
  timeout, or a failing read. The list is finite; reading past its end is the read error
  \<open>EOF\<close>.
\<close>

datatype event = Rune rune | Silence | Fail nat

text \<open>
  \<^verbatim>\<open>reader\<close> holds the timed reader and a buffered reader over it; the only field of the
  timed reader the decoder touches is \<^verbatim>\<open>Timeout\<close> (a \<^verbatim>\<open>time.Duration\<close>, in nanoseconds).
\<close>

record reader =
  Timeout :: int
  input :: "event list"

definition EscTimeout :: int where
  "EscTimeout = 10 * 1000000"

text \<open>
  Modelled from the spec: \<^verbatim>\<open>async.TimedReader\<close> and \<^verbatim>\<open>bufio.Reader.ReadRune\<close> are not
  among the sources. With a negative timeout the read blocks until a rune arrives or the read
  fails; with a timeout \<open>\<ge> 0\<close> it returns the \<open>AsyncTimeout\<close> indication when no input
  arrives in time. A rune is never returned half-decoded.
\<close>

fun nextRune :: "bool \<Rightarrow> event list \<Rightarrow> (error + rune) \<times> event list" where
  "nextRune blocking [] = (Inl EOF, [])"
| "nextRune blocking (Rune r # rest) = (Inr r, rest)"
| "nextRune blocking (Fail n # rest) = (Inl (IOError n), rest)"
| "nextRune blocking (Silence # rest) =
     (if blocking then nextRune blocking rest else (Inl AsyncTimeout, rest))"

definition ReadRune :: "reader \<Rightarrow> (error + rune) \<times> reader" where
  "ReadRune rd =
     (case nextRune (Timeout rd < 0) (input rd) of
        (res, rest) \<Rightarrow> (res, rd\<lparr>input := rest\<rparr>))"

section \<open>Key tables and CSI parsing\<close>

definition g3Seq :: "rune \<rightharpoonup> rune" where
  "g3Seq = map_of
     [(of_char CHR ''P'', F1), (of_char CHR ''Q'', F2),
      (of_char CHR ''R'', F3), (of_char CHR ''S'', F4),
      (of_char CHR ''H'', Home), (of_char CHR ''F'', End_key)]"

definition keyByLast :: "rune \<rightharpoonup> rune" where
  "keyByLast = map_of
     [(of_char CHR ''A'', Up), (of_char CHR ''B'', Down),
      (of_char CHR ''C'', Right_key), (of_char CHR ''D'', Left_key),
      (of_char CHR ''H'', Home), (of_char CHR ''F'', End_key)]"

definition keyByNum0 :: "int \<rightharpoonup> rune" where
  "keyByNum0 = map_of
     [(1, Home), (2, Insert), (3, Delete), (4, End_key), (5, PageUp), (6, PageDown),
      (11, F1), (12, F2), (13, F3), (14, F4),
      (15, F5), (17, F6), (18, F7), (19, F8), (20, F9), (21, F10), (23, F11), (24, F12)]"

text \<open>
  The table for \<^verbatim>\<open>last == '~'\<close> and \<^verbatim>\<open>num[0] == 27\<close>; \<open>9\<close> and \<open>13\<close> are the runes
  \<^verbatim>\<open>'\t'\<close> and \<^verbatim>\<open>'\r'\<close>, \<open>39\<close> is the apostrophe.
\<close>

definition keyByNum2 :: "int \<rightharpoonup> rune" where
  "keyByNum2 = map_of
     [(9, 9), (13, 13),
      (33, of_char CHR ''!''), (35, of_char CHR ''#''), (39, 39), (40, of_char CHR ''(''),
      (41, of_char CHR '')''), (43, of_char CHR ''+''), (44, of_char CHR '',''),
      (45, of_char CHR ''-''),
      (46, of_char CHR ''.''),
      (48, of_char CHR ''0''), (49, of_char CHR ''1''), (50, of_char CHR ''2''),
      (51, of_char CHR ''3''), (52, of_char CHR ''4''), (53, of_char CHR ''5''),
      (54, of_char CHR ''6''), (55, of_char CHR ''7''),
      (56, of_char CHR ''8''), (57, of_char CHR ''9''),
      (58, of_char CHR '':''), (59, of_char CHR '';''), (60, of_char CHR ''<''),
      (61, of_char CHR ''=''), (62, of_char CHR ''>''), (63, of_char CHR '';'')]"

definition xtermModify :: "Key \<Rightarrow> int \<Rightarrow> Key \<times> error option" where
  "xtermModify k m =
     (if m = 0 then (k, None)
      else if m = 2 then (k\<lparr>Mod := Mod k OR Shift\<rparr>, None)
      else if m = 3 then (k\<lparr>Mod := Mod k OR Alt\<rparr>, None)
      else if m = 4 then (k\<lparr>Mod := Mod k OR (Shift OR Alt)\<rparr>, None)
      else if m = 5 then (k\<lparr>Mod := Mod k OR Ctrl\<rparr>, None)
      else if m = 6 then (k\<lparr>Mod := Mod k OR (Shift OR Ctrl)\<rparr>, None)
      else if m = 7 then (k\<lparr>Mod := Mod k OR (Alt OR Ctrl)\<rparr>, None)
      else if m = 8 then (k\<lparr>Mod := Mod k OR (Shift OR Alt OR Ctrl)\<rparr>, None)
      else (ZeroKey, Some BadEscSeq))"

text \<open>
  \<^verbatim>\<open>parseCSI\<close>, in the source's order: the length guard first, then the table of final
  bytes, then the \<^verbatim>\<open>'~'\<close> branches; everything that falls through is \<open>BadEscSeq\<close>.
  Every index into \<open>nums\<close> is behind the length test the source puts before it.
\<close>

definition parseCSI :: "int list \<Rightarrow> rune \<Rightarrow> Key \<times> error option" where
  "parseCSI nums lastr =
     (if length nums \<noteq> 0 \<and> length nums \<noteq> 2 then (ZeroKey, Some BadEscSeq)
      else
        (case keyByLast lastr of
           Some r \<Rightarrow>
             (let k = \<lparr>rune = r, Mod = 0\<rparr> in
              if length nums = 0 then (k, None)
              else if length nums \<noteq> 2 \<or> nums ! 0 \<noteq> 1 then (ZeroKey, Some BadEscSeq)
              else xtermModify k (nums ! 1))
         | None \<Rightarrow>
             (if lastr = of_char CHR ''~'' then
                (if length nums = 1 \<or> length nums = 2 then
                   (case keyByNum0 (nums ! 0) of
                      Some r \<Rightarrow>
                        (let k = \<lparr>rune = r, Mod = 0\<rparr> in
                         if length nums = 2 then xtermModify k (nums ! 1) else (k, None))
                    | None \<Rightarrow> (ZeroKey, Some BadEscSeq))
                 else if length nums = 3 \<and> nums ! 0 = 27 then
                   (case keyByNum2 (nums ! 2) of
                      Some r \<Rightarrow> xtermModify \<lparr>rune = r, Mod = 0\<rparr> (nums ! 1)
                    | None \<Rightarrow> (ZeroKey, Some BadEscSeq))
                 else (ZeroKey, Some BadEscSeq))
              else (ZeroKey, Some BadEscSeq))))"

section \<open>The key decoder\<close>

text \<open>
  Go's \<^verbatim>\<open>int\<close> is taken as 64 bits wide; \<^verbatim>\<open>nums[cur]*10 + int(r-'0')\<close> wraps around
  silently on overflow.
\<close>

definition wrap64 :: "int \<Rightarrow> int" where
  "wrap64 x = (x + 2 ^ 63) mod 2 ^ 64 - 2 ^ 63"

lemma nextRune_Inr_length: "nextRune b evs = (Inr r, rest) \<Longrightarrow> length rest < length evs"
proof (induction b evs rule: nextRune.induct)
  case (4 blocking rest')
  then show ?case by (auto split: if_splits)
qed auto

lemma ReadRune_Inr_length:
  "ReadRune rd = (Inr r, rd') \<Longrightarrow> length (input rd') < length (input rd)"
  by (auto simp: ReadRune_def split: prod.splits dest: nextRune_Inr_length)

text \<open>
  The loop that reads the numeric parameters of a CSI sequence (the \<^verbatim>\<open>for\<close> loop of
  \<^verbatim>\<open>readKey\<close>), ending in the call of \<^verbatim>\<open>parseCSI\<close>. Each round consumes input, so the
  loop ends on every finite input.
\<close>

function csiLoop :: "int list \<Rightarrow> reader \<Rightarrow> (Key \<times> error option) \<times> reader" where
  "csiLoop nums rd =
     (case ReadRune rd of
        (Inl e, rd1) \<Rightarrow>
          (if e = AsyncTimeout then ((\<lparr>rune = of_char CHR ''['', Mod = Alt\<rparr>, None), rd1)
           else ((ZeroKey, Some e), rd1))
      | (Inr r, rd1) \<Rightarrow>
          (let rd2 = rd1\<lparr>Timeout := - 1\<rparr> in
           if r \<noteq> of_char CHR '';'' \<and> (r < of_char CHR ''0'' \<or> r > of_char CHR ''9'')
           then (parseCSI nums r, rd2)
           else
             (let nums1 = (if length nums = 0 then nums @ [0] else nums) in
              if r = of_char CHR '';'' then csiLoop (nums1 @ [0]) rd2
              else
                (let cur = length nums1 - 1 in
                 csiLoop (nums1[cur := wrap64 (nums1 ! cur * 10 + (r - of_char CHR ''0''))])
                   rd2))))"
  by pat_completeness auto
termination
  by (relation "measure (\<lambda>(nums, rd). length (input rd))")
     (auto dest: ReadRune_Inr_length [OF sym])

declare csiLoop.simps [simp del]

text \<open>
  The body of the \<^verbatim>\<open>case 0x1b\<close> branch after the timeout is set: \<open>r\<close> is the rune read
  first (the escape itself), which the final \<^verbatim>\<open>return Key{r, Alt}, nil\<close> uses.
\<close>

definition escBranch :: "rune \<Rightarrow> reader \<Rightarrow> (Key \<times> error option) \<times> reader" where
  "escBranch r rd =
     (case ReadRune rd of
        (Inl e, rd1) \<Rightarrow>
          (if e = AsyncTimeout then ((\<lparr>rune = of_char CHR ''['', Mod = Ctrl\<rparr>, None), rd1)
           else ((ZeroKey, Some e), rd1))
      | (Inr r2, rd1) \<Rightarrow>
          (if r2 = of_char CHR ''['' then csiLoop [] rd1
           else if r2 = of_char CHR ''O'' then
             (case ReadRune rd1 of
                (Inl e, rd2) \<Rightarrow>
                  (if e = AsyncTimeout then ((\<lparr>rune = r2, Mod = Alt\<rparr>, None), rd2)
                   else ((ZeroKey, Some e), rd2))
              | (Inr r3, rd2) \<Rightarrow>
                  (case g3Seq r3 of
                     Some r' \<Rightarrow> ((\<lparr>rune = r', Mod = 0\<rparr>, None), rd2)
                   | None \<Rightarrow> ((ZeroKey, Some BadEscSeq), rd2)))
           else ((\<lparr>rune = r, Mod = Alt\<rparr>, None), rd1)))"

text \<open>
  \<^verbatim>\<open>readKey\<close> returns the key and the error (\<open>None\<close> for \<^verbatim>\<open>nil\<close>), and the reader
  state it leaves behind. On a failing first read the named result \<^verbatim>\<open>k\<close> still holds its
  zero value. In the escape branch the deferred function sets the timeout to \<open>-1\<close> after
  the branch's body has returned.
\<close>

definition readKey :: "reader \<Rightarrow> (Key \<times> error option) \<times> reader" where
  "readKey rd =
     (case ReadRune rd of
        (Inl err, rd1) \<Rightarrow> ((\<lparr>rune = 0, Mod = 0\<rparr>, Some err), rd1)
      | (Inr r, rd1) \<Rightarrow>
          (if r = 0x0 then ((\<lparr>rune = of_char CHR ''`'', Mod = Ctrl\<rparr>, None), rd1)
           else if r = 0x1d then ((\<lparr>rune = of_char CHR ''6'', Mod = Ctrl\<rparr>, None), rd1)
           else if r = 0x1f then ((\<lparr>rune = of_char CHR ''/'', Mod = Ctrl\<rparr>, None), rd1)
           else if r = 0x7f then ((\<lparr>rune = Backspace, Mod = 0\<rparr>, None), rd1)
           else if r = 0x1b then
             (case escBranch r (rd1\<lparr>Timeout := EscTimeout\<rparr>) of
                (res, rd2) \<Rightarrow> (res, rd2\<lparr>Timeout := - 1\<rparr>))
           else if 0x1 \<le> r \<and> r \<le> 0x1d then ((\<lparr>rune = r + 0x40, Mod = Ctrl\<rparr>, None), rd1)
           else ((\<lparr>rune = r, Mod = 0\<rparr>, None), rd1)))"

text \<open>
  A reader in its initial, blocking state over a sequence of runes that all arrive, and the
  runes of an ASCII string.
\<close>

definition runes :: "rune list \<Rightarrow> reader" where
  "runes rs = \<lparr>Timeout = - 1, input = map Rune rs\<rparr>"

definition str :: "string \<Rightarrow> rune list" where
  "str s = map of_char s"

section \<open>Cells and buffers (edit/writer.go)\<close>

text \<open>
  A cell is a rune, its width (a \<^verbatim>\<open>byte\<close>) and its attribute; a position is a line and a
  column. The fields of \<^verbatim>\<open>cell\<close> and \<^verbatim>\<open>pos\<close> carry a prefix here, since \<^verbatim>\<open>rune\<close>,
  \<^verbatim>\<open>width\<close> and \<^verbatim>\<open>col\<close> also name fields of \<^verbatim>\<open>Key\<close> and \<^verbatim>\<open>buffer\<close>. The
  \<^verbatim>\<open>int\<close> fields are modelled as \<open>int\<close>: a column is at most the number of cells
  written, far from the 64-bit bound.
\<close>

record cell =
  crune :: rune
  cwidth :: "8 word"
  cattr :: string

record pos =
  pline :: int
  pcol :: int

record buffer =
  width :: int
  col :: int
  indent :: int
  cells :: "cell list list"
  dot :: pos

text \<open>
  A run-time panic is the result \<open>None\<close>: \<^verbatim>\<open>make\<close> with a negative capacity, an index
  out of range, a nil dereference.
\<close>

definition newBuffer :: "int \<Rightarrow> buffer option" where
  "newBuffer w =
     (if w < 0 then None
      else Some \<lparr>width = w, col = 0, indent = 0, cells = [[]],
                 dot = \<lparr>pline = 0, pcol = 0\<rparr>\<rparr>)"

definition appendCell :: "buffer \<Rightarrow> cell \<Rightarrow> buffer option" where
  "appendCell b c =
     (let n = length (cells b) in
      if n = 0 then None
      else Some (b\<lparr>cells := (cells b)[n - 1 := cells b ! (n - 1) @ [c]],
                   col := col b + uint (cwidth c)\<rparr>))"

definition appendLine :: "buffer \<Rightarrow> buffer option" where
  "appendLine b =
     (if width b < 0 then None else Some (b\<lparr>cells := cells b @ [[]], col := 0\<rparr>))"

text \<open>
  The padding loop of \<^verbatim>\<open>newline\<close> calls \<^verbatim>\<open>appendCell\<close> once for each \<open>i\<close> from \<open>0\<close>
  below \<^verbatim>\<open>b.indent\<close>, which \<^verbatim>\<open>appendCell\<close> does not change: \<open>appendCells n\<close> is \<open>n\<close>
  rounds of it.
\<close>

fun appendCells :: "nat \<Rightarrow> cell \<Rightarrow> buffer \<Rightarrow> buffer option" where
  "appendCells 0 c b = Some b"
| "appendCells (Suc n) c b =
     (case appendCell b c of None \<Rightarrow> None | Some b1 \<Rightarrow> appendCells n c b1)"

definition space :: cell where
  "space = \<lparr>crune = of_char CHR '' '', cwidth = 1, cattr = ''''\<rparr>"

definition newline :: "buffer \<Rightarrow> buffer option" where
  "newline b =
     (case appendLine b of
        None \<Rightarrow> None
      | Some b1 \<Rightarrow>
          (if indent b1 > 0 then appendCells (nat (indent b1)) space b1 else Some b1))"

text \<open>
  \<^verbatim>\<open>write\<close> appends a single rune. \<^verbatim>\<open>unicode.IsPrint\<close> belongs to Go's library and
  \<^verbatim>\<open>wcwidth\<close> is not among the sources: both are parameters. \<^verbatim>\<open>byte(wd)\<close> keeps the low
  eight bits of the width.
\<close>

definition "write" ::
  "(rune \<Rightarrow> bool) \<Rightarrow> (rune \<Rightarrow> int) \<Rightarrow> buffer \<Rightarrow> rune \<Rightarrow> string \<Rightarrow> buffer option" where
  "write IsPrint wcwidth b r attr =
     (if r = 0x0a then newline b
      else if \<not> IsPrint r then Some b
      else
        (let wd = wcwidth r;
             c = \<lparr>crune = r, cwidth = word_of_int wd, cattr = attr\<rparr> in
         if col b + wd > width b then
           (case newline b of None \<Rightarrow> None | Some b1 \<Rightarrow> appendCell b1 c)
         else if col b + wd = width b then
           (case appendCell b c of None \<Rightarrow> None | Some b1 \<Rightarrow> newline b1)
         else appendCell b c))"

fun writes ::
  "(rune \<Rightarrow> bool) \<Rightarrow> (rune \<Rightarrow> int) \<Rightarrow> buffer \<Rightarrow> rune list \<Rightarrow> string \<Rightarrow> buffer option" where
  "writes IsPrint wcwidth b [] attr = Some b"
| "writes IsPrint wcwidth b (r # s) attr =
     (case write IsPrint wcwidth b r attr of
        None \<Rightarrow> None
      | Some b1 \<Rightarrow> writes IsPrint wcwidth b1 s attr)"

text \<open>A sequence of calls of \<^verbatim>\<open>write\<close>, each with its own rune and attribute.\<close>

fun writeCalls ::
  "(rune \<Rightarrow> bool) \<Rightarrow> (rune \<Rightarrow> int) \<Rightarrow> buffer \<Rightarrow> (rune \<times> string) list \<Rightarrow> buffer option" where
  "writeCalls IsPrint wcwidth b [] = Some b"
| "writeCalls IsPrint wcwidth b ((r, attr) # calls) =
     (case write IsPrint wcwidth b r attr of
        None \<Rightarrow> None
      | Some b1 \<Rightarrow> writeCalls IsPrint wcwidth b1 calls)"

definition cursor :: "buffer \<Rightarrow> pos" where
  "cursor b = \<lparr>pline = int (length (cells b)) - 1, pcol = col b\<rparr>"

text \<open>The summed cell widths of a line, and the buffers none of whose lines overflows.\<close>

definition lineWidth :: "cell list \<Rightarrow> int" where
  "lineWidth l = sum_list (map (\<lambda>c. uint (cwidth c)) l)"

definition noOverflow :: "buffer \<Rightarrow> bool" where
  "noOverflow b = list_all (\<lambda>l. lineWidth l \<le> width b) (cells b)"

text \<open>
  An instance of the two parameters for concrete runs, on three blocks of Unicode: the
  printable ASCII characters (one column), the combining diacritical marks U+0300 to U+036F
  (printable, no column) and the CJK unified ideographs U+4E00 to U+9FA5 (printable, two
  columns). Modelled from the spec: the width oracle returns 0 for combining marks, 2 for
  East-Asian wide characters and 1 otherwise.
\<close>

definition IsPrint3 :: "rune \<Rightarrow> bool" where
  "IsPrint3 r = (0x20 \<le> r \<and> r \<le> 0x7e \<or> 0x300 \<le> r \<and> r \<le> 0x36f \<or> 0x4e00 \<le> r \<and> r \<le> 0x9fa5)"

definition wcwidth3 :: "rune \<Rightarrow> int" where
  "wcwidth3 r =
     (if 0x300 \<le> r \<and> r \<le> 0x36f then 0 else if 0x4e00 \<le> r \<and> r \<le> 0x9fa5 then 2 else 1)"

section \<open>The screen writer\<close>

text \<open>\<^verbatim>\<open>%d\<close> of \<^verbatim>\<open>fmt\<close>: the decimal digits, after a minus sign for a negative number.\<close>

fun digits :: "nat \<Rightarrow> string" where
  "digits n = (if n < 10 then [char_of (48 + n)] else digits (n div 10) @ [char_of (48 + n mod 10)])"

declare digits.simps [simp del]

definition itoa :: "int \<Rightarrow> string" where
  "itoa i = (if i < 0 then CHR ''-'' # digits (nat (- i)) else digits (nat i))"

text \<open>
  \<^verbatim>\<open>string(r)\<close>: the UTF-8 encoding of the rune, and that of U+FFFD for a rune that is
  not a valid code point.
\<close>

definition encodeRune :: "rune \<Rightarrow> string" where
  "encodeRune r =
     (if r < 0 \<or> r > 0x10FFFF \<or> (0xD800 \<le> r \<and> r \<le> 0xDFFF)
      then [char_of (0xEF :: int), char_of (0xBF :: int), char_of (0xBD :: int)]
      else if r < 0x80 then [char_of r]
      else if r < 0x800 then [char_of (0xC0 + r div 64), char_of (0x80 + r mod 64)]
      else if r < 0x10000 then
        [char_of (0xE0 + r div 4096), char_of (0x80 + r div 64 mod 64),
         char_of (0x80 + r mod 64)]
      else
        [char_of (0xF0 + r div 262144), char_of (0x80 + r div 4096 mod 64),
         char_of (0x80 + r div 64 mod 64), char_of (0x80 + r mod 64)])"

definition ESC :: char where
  "ESC = CHR 0x1B"

definition deltaPos :: "pos \<Rightarrow> pos \<Rightarrow> string" where
  "deltaPos from to =
     (if pline from < pline to then ESC # ''['' @ itoa (pline to - pline from) @ ''B''
      else if pline from > pline to then ESC # ''['' @ itoa (pline from - pline to) @ ''A''
      else [])
     @
     (if pcol from < pcol to then ESC # ''['' @ itoa (pcol to - pcol from) @ ''C''
      else if pcol from > pcol to then ESC # ''['' @ itoa (pcol from - pcol to) @ ''D''
      else [])"

text \<open>The bytes of an SGR reset followed by the attribute \<open>a\<close>.\<close>

definition sgr :: "string \<Rightarrow> string" where
  "sgr a = ESC # ''[m'' @ ESC # ''['' @ a @ ''m''"

text \<open>
  The two loops of \<^verbatim>\<open>commitBuffer\<close> over the cells of a line and over the lines, threading
  the attribute set last; each returns that attribute and the bytes it wrote. \<open>i\<close> is the
  index of the line.
\<close>

fun commitCells :: "string \<Rightarrow> cell list \<Rightarrow> string \<times> string" where
  "commitCells attr [] = (attr, [])"
| "commitCells attr (c # cs) =
     (if cwidth c > 0 \<and> cattr c \<noteq> attr then
        (case commitCells (cattr c) cs of
           (attr', out) \<Rightarrow> (attr', sgr (cattr c) @ encodeRune (crune c) @ out))
      else
        (case commitCells attr cs of
           (attr', out) \<Rightarrow> (attr', encodeRune (crune c) @ out)))"

fun commitLines :: "nat \<Rightarrow> string \<Rightarrow> cell list list \<Rightarrow> string \<times> string" where
  "commitLines i attr [] = (attr, [])"
| "commitLines i attr (l # ls) =
     (case commitCells attr l of
        (attr1, out1) \<Rightarrow>
          (case commitLines (i + 1) attr1 ls of
             (attr2, out2) \<Rightarrow> (attr2, (if i > 0 then [CHR 0x0A] else []) @ out1 @ out2)))"

record writer =
  oldBuf :: buffer

text \<open>The bytes \<^verbatim>\<open>commitBuffer\<close> accumulates before its single call of \<^verbatim>\<open>Write\<close>.\<close>

definition commitBytes :: "writer \<Rightarrow> buffer \<Rightarrow> string" where
  "commitBytes w buf =
     (let pLine = pline (dot (oldBuf w)) in
      (if pLine > 0 then ESC # ''['' @ itoa pLine @ ''A'' else [])
      @ CHR 0x0D # ESC # ''[J''
      @ (case commitLines 0 '''' (cells buf) of
           (attr, out) \<Rightarrow> out @ (if attr \<noteq> '''' then ESC # ''[m'' else []))
      @ deltaPos (cursor buf) (dot buf))"

text \<open>
  The terminal file is the parameter \<open>fileWrite\<close>: what \<^verbatim>\<open>w.file.Write\<close> answers to the
  bytes it is given, \<open>None\<close> for a nil error. \<^verbatim>\<open>commitBuffer\<close> returns its error and the
  writer it leaves behind.
\<close>

definition commitBuffer ::
  "(string \<Rightarrow> error option) \<Rightarrow> writer \<Rightarrow> buffer \<Rightarrow> error option \<times> writer" where
  "commitBuffer fileWrite w buf =
     (case fileWrite (commitBytes w buf) of
        Some err \<Rightarrow> (Some err, w)
      | None \<Rightarrow> (None, w\<lparr>oldBuf := buf\<rparr>))"

text \<open>
  The buffers that the proof of the overflow bound keeps \<^verbatim>\<open>write\<close> within: at least one
  line, no line wider than the buffer, a column that is at least the width of the last line,
  and room for a cell of two columns after the padding of a new line.
\<close>

definition fits :: "buffer \<Rightarrow> bool" where
  "fits b \<longleftrightarrow>
     cells b \<noteq> [] \<and> noOverflow b \<and> lineWidth (last (cells b)) \<le> col b \<and>
     max 0 (indent b) + 2 \<le> width b"

section \<open>The line buffer of refresh\<close>

text \<open>
  Modelled from the spec: the editor state, its tokens and its completion are declared in
  files that are not among the sources. Their fields are the ones \<^verbatim>\<open>refresh\<close> reads up to
  the end of its loop over the tokens; \<^verbatim>\<open>start\<close>, \<^verbatim>\<open>end\<close>, \<^verbatim>\<open>typ\<close> and \<^verbatim>\<open>text\<close> carry a
  prefix. A Go string is given by the runes that \<^verbatim>\<open>range\<close> yields; a completion pointer that
  is nil is \<open>None\<close>. The attribute tables (\<^verbatim>\<open>attrForType\<close>, a map whose missing keys read as
  the empty string, \<^verbatim>\<open>attrForPrompt\<close>, \<^verbatim>\<open>attrForCompleted\<close>) are parameters.
\<close>

record token =
  Typ :: nat
  Val :: "rune list"

record candidatePart =
  ptext :: "rune list"
  completed :: bool

record candidate =
  ctext :: "rune list"
  parts :: "candidatePart list"

record completion =
  cstart :: int
  cend :: int
  ctyp :: nat
  candidates :: "candidate list"
  current :: int

record editorState =
  tokens :: "token list"
  prompt :: "rune list"
  edot :: int
  completion :: "completion option"

record attrs =
  attrForPrompt :: string
  attrForType :: "nat \<Rightarrow> string"
  attrForCompleted :: string

text \<open>\<^verbatim>\<open>utf8.RuneLen\<close>: the number of bytes of the rune's encoding, \<open>-1\<close> for an invalid rune.\<close>

definition RuneLen :: "rune \<Rightarrow> int" where
  "RuneLen r =
     (if r < 0 then - 1
      else if r \<le> 0x7F then 1
      else if r \<le> 0x7FF then 2
      else if 0xD800 \<le> r \<and> r \<le> 0xDFFF then - 1
      else if r \<le> 0xFFFF then 3
      else if r \<le> 0x10FFFF then 4
      else - 1)"

text \<open>The loop over the parts of the selected candidate; \<open>base\<close> is \<^verbatim>\<open>attrForType[comp.typ]\<close>.\<close>

fun writeParts ::
  "(rune \<Rightarrow> bool) \<Rightarrow> (rune \<Rightarrow> int) \<Rightarrow> attrs \<Rightarrow> string \<Rightarrow> buffer \<Rightarrow> candidatePart list \<Rightarrow>
   buffer option" where
  "writeParts IsPrint wcwidth A base b [] = Some b"
| "writeParts IsPrint wcwidth A base b (part # ps) =
     (case writes IsPrint wcwidth b (ptext part)
             (if completed part then base @ attrForCompleted A else base) of
        None \<Rightarrow> None
      | Some b1 \<Rightarrow> writeParts IsPrint wcwidth A base b1 ps)"

text \<open>
  The state of the loop over the tokens: the line buffer, the byte counter \<open>i\<close> and
  \<^verbatim>\<open>suppress\<close>.
\<close>

record lineState =
  lbuf :: buffer
  li :: int
  suppress :: bool

text \<open>
  One round of the inner loop, for the rune \<open>r\<close> of a token of type \<open>typ\<close>. The counter is
  advanced before it is compared with \<^verbatim>\<open>comp.start\<close> and with the dot.
\<close>

definition runeStep ::
  "(rune \<Rightarrow> bool) \<Rightarrow> (rune \<Rightarrow> int) \<Rightarrow> attrs \<Rightarrow> editorState \<Rightarrow> nat \<Rightarrow> lineState \<Rightarrow> rune \<Rightarrow>
   lineState option" where
  "runeStep IsPrint wcwidth A bs typ st r =
     (case (if suppress st
            then (case completion bs of None \<Rightarrow> None | Some cmpl \<Rightarrow> Some (li st < cend cmpl))
            else Some False) of
        None \<Rightarrow> None
      | Some silenced \<Rightarrow>
          (case (if silenced then Some (lbuf st)
                 else write IsPrint wcwidth (lbuf st) r (attrForType A typ)) of
             None \<Rightarrow> None
           | Some b1 \<Rightarrow>
               (let i1 = li st + RuneLen r in
                case (case completion bs of
                        None \<Rightarrow> Some (b1, suppress st)
                      | Some cmpl \<Rightarrow>
                          (if current cmpl \<noteq> - 1 \<and> i1 = cstart cmpl then
                             (if 0 \<le> current cmpl \<and> current cmpl < int (length (candidates cmpl))
                              then
                                (case writeParts IsPrint wcwidth A (attrForType A (ctyp cmpl)) b1
                                        (parts (candidates cmpl ! nat (current cmpl))) of
                                   None \<Rightarrow> None
                                 | Some b2 \<Rightarrow> Some (b2, True))
                              else None)
                           else Some (b1, suppress st))) of
                  None \<Rightarrow> None
                | Some (b2, sup1) \<Rightarrow>
                    Some \<lparr>lbuf = (if edot bs = i1 then b2\<lparr>dot := cursor b2\<rparr> else b2),
                          li = i1, suppress = sup1\<rparr>)))"

fun runesLoop ::
  "(rune \<Rightarrow> bool) \<Rightarrow> (rune \<Rightarrow> int) \<Rightarrow> attrs \<Rightarrow> editorState \<Rightarrow> nat \<Rightarrow> lineState \<Rightarrow> rune list \<Rightarrow>
   lineState option" where
  "runesLoop IsPrint wcwidth A bs typ st [] = Some st"
| "runesLoop IsPrint wcwidth A bs typ st (r # rs) =
     (case runeStep IsPrint wcwidth A bs typ st r of
        None \<Rightarrow> None
      | Some st1 \<Rightarrow> runesLoop IsPrint wcwidth A bs typ st1 rs)"

fun tokensLoop ::
  "(rune \<Rightarrow> bool) \<Rightarrow> (rune \<Rightarrow> int) \<Rightarrow> attrs \<Rightarrow> editorState \<Rightarrow> lineState \<Rightarrow> token list \<Rightarrow>
   lineState option" where
  "tokensLoop IsPrint wcwidth A bs st [] = Some st"
| "tokensLoop IsPrint wcwidth A bs st (tok # toks) =
     (case runesLoop IsPrint wcwidth A bs (Typ tok) st (Val tok) of
        None \<Rightarrow> None
      | Some st1 \<Rightarrow> tokensLoop IsPrint wcwidth A bs st1 toks)"

text \<open>
  \<^verbatim>\<open>refresh\<close> from the creation of the line buffer to the end of the loop over the tokens;
  \<open>w\<close> is the width of the terminal that \<^verbatim>\<open>tty.GetWinsize\<close> reports.
\<close>

definition refreshLine ::
  "(rune \<Rightarrow> bool) \<Rightarrow> (rune \<Rightarrow> int) \<Rightarrow> attrs \<Rightarrow> int \<Rightarrow> editorState \<Rightarrow> lineState option" where
  "refreshLine IsPrint wcwidth A w bs =
     (case newBuffer w of
        None \<Rightarrow> None
      | Some b0 \<Rightarrow>
          (case writes IsPrint wcwidth b0 (prompt bs) (attrForPrompt A) of
             None \<Rightarrow> None
           | Some b1 \<Rightarrow>
               (let b2 = (if col b1 * 2 < width b1 then b1\<lparr>indent := col b1\<rparr> else b1);
                    b3 = (if edot bs = 0 then b2\<lparr>dot := cursor b2\<rparr> else b2)
                in tokensLoop IsPrint wcwidth A bs \<lparr>lbuf = b3, li = 0, suppress = False\<rparr>
                     (tokens bs))))"

text \<open>Attribute tables for concrete runs.\<close>

definition attrForType3 :: "nat \<Rightarrow> string" where
  "attrForType3 t = (if t = 0 then ''32'' else ''1'')"

definition attrs3 :: attrs where
  "attrs3 = \<lparr>attrForPrompt = ''35'', attrForType = attrForType3, attrForCompleted = '';4''\<rparr>"

section \<open>Properties of the key decoder\<close>

lemma xtermModify_err: "xtermModify k m = (k', Some e) \<Longrightarrow> k' = ZeroKey"
  by (auto simp: xtermModify_def split: if_splits)

lemma parseCSI_err: "parseCSI nums l = (k, Some e) \<Longrightarrow> k = ZeroKey"
  unfolding parseCSI_def Let_def
  by (auto split: if_splits option.splits dest: xtermModify_err)

lemma csiLoop_err: "csiLoop nums rd = ((k, Some e), rd') \<Longrightarrow> k = ZeroKey"
proof (induction nums rd rule: csiLoop.induct)
  case (1 nums rd)
  show ?case
  proof (cases "ReadRune rd")
    case (Pair res rd1)
    show ?thesis
    proof (cases res)
      case (Inl err)
      with Pair "1.prems" show ?thesis
        by (auto simp: csiLoop.simps [of nums rd] split: if_splits)
    next
      case (Inr r)
      with Pair "1.prems" "1.IH" show ?thesis
        by (auto simp: csiLoop.simps [of nums rd] Let_def split: if_splits
            dest: parseCSI_err)
    qed
  qed
qed

lemma escBranch_err: "escBranch r rd = ((k, Some e), rd') \<Longrightarrow> k = ZeroKey"
  unfolding escBranch_def
  by (auto split: prod.splits sum.splits if_splits option.splits dest: csiLoop_err)

text \<open>
  The length guard at the head of \<^verbatim>\<open>parseCSI\<close> rejects every parameter list of length
  one or three, whatever the final byte: the \<^verbatim>\<open>'~'\<close> branches written for those lengths
  are never reached.
\<close>

lemma parseCSI_length_guard:
  "length nums = 1 \<or> length nums = 3 \<Longrightarrow> parseCSI nums l = (ZeroKey, Some BadEscSeq)"
  by (auto simp: parseCSI_def)

text \<open>With two parameters the keypad table and \<^verbatim>\<open>xtermModify\<close> are applied.\<close>

lemma parseCSI_keypad_two_params:
  "keyByNum0 n = Some r \<Longrightarrow>
   parseCSI [n, m] (of_char CHR ''~'') = xtermModify \<lparr>rune = r, Mod = 0\<rparr> m"
  by (simp add: parseCSI_def keyByLast_def)

text \<open>
  The decoder on sequences that the length guard lets through: \<^verbatim>\<open>ESC [ 1 ; 5 A\<close> is Up
  with Ctrl, \<^verbatim>\<open>ESC O P\<close> is F1, \<^verbatim>\<open>ESC [ 3 ; 5 ~\<close> is Delete with Ctrl, and an escape
  followed by silence is Ctrl+\<open>[\<close>.
\<close>

lemma readKey_scenarios:
  "fst (readKey (runes (0x1b # str ''[1;5A''))) = (\<lparr>rune = Up, Mod = Ctrl\<rparr>, None)"
  "fst (readKey (runes (0x1b # str ''OP''))) = (\<lparr>rune = F1, Mod = 0\<rparr>, None)"
  "fst (readKey (runes (0x1b # str ''[3;5~''))) = (\<lparr>rune = Delete, Mod = Ctrl\<rparr>, None)"
  "fst (readKey \<lparr>Timeout = - 1, input = [Rune 0x1b, Silence, Rune 0x41]\<rparr>) =
     (\<lparr>rune = of_char CHR ''['', Mod = Ctrl\<rparr>, None)"
  by (simp_all add: readKey_def runes_def str_def ReadRune_def escBranch_def csiLoop.simps
      wrap64_def parseCSI_def keyByLast_def keyByNum0_def g3Seq_def xtermModify_def
      EscTimeout_def)

text \<open>
  C1. The sequence \<^verbatim>\<open>ESC [ 2 7 ; 2 ; 1 3 ~\<close> has three parameters, \<open>27\<close>, \<open>2\<close> and \<open>13\<close>.
  The decoder does not return Enter with Shift: the length guard of \<^verbatim>\<open>parseCSI\<close> turns
  it into \<open>BadEscSeq\<close> with \<open>ZeroKey\<close>.
\<close>

theorem readKey_modifyOtherKeys_rejected:
  "readKey (runes (0x1b # str ''[27;2;13~'')) =
     ((ZeroKey, Some BadEscSeq), \<lparr>Timeout = - 1, input = []\<rparr>) \<and>
   fst (readKey (runes (0x1b # str ''[27;2;13~''))) \<noteq> (\<lparr>rune = Enter, Mod = Shift\<rparr>, None)"
  by (simp add: readKey_def runes_def str_def ReadRune_def escBranch_def csiLoop.simps
      wrap64_def parseCSI_def)

text \<open>
  C2. The sequence \<^verbatim>\<open>ESC [ 3 ~\<close> has the single parameter \<open>3\<close>, which the keypad table
  maps to Delete. The decoder does not return Delete: the length guard of \<^verbatim>\<open>parseCSI\<close>
  turns it into \<open>BadEscSeq\<close> with \<open>ZeroKey\<close>.
\<close>

theorem readKey_keypad_one_param_rejected:
  "readKey (runes (0x1b # str ''[3~'')) =
     ((ZeroKey, Some BadEscSeq), \<lparr>Timeout = - 1, input = []\<rparr>) \<and>
   fst (readKey (runes (0x1b # str ''[3~''))) \<noteq> (\<lparr>rune = Delete, Mod = 0\<rparr>, None)"
  by (simp add: readKey_def runes_def str_def ReadRune_def escBranch_def csiLoop.simps
      wrap64_def parseCSI_def)

text \<open>
  C5, as stated, fails at the byte \<open>0x1d\<close>: the decoder returns the key \<open>6\<close> with Ctrl,
  not the key \<open>^\<close> with Ctrl.
\<close>

theorem readKey_0x1d_counterexample:
  "fst (readKey (runes [0x1d])) = (\<lparr>rune = of_char CHR ''6'', Mod = Ctrl\<rparr>, None) \<and>
   fst (readKey (runes [0x1d])) \<noteq> (\<lparr>rune = of_char CHR ''^'', Mod = Ctrl\<rparr>, None)"
  by (simp add: readKey_def runes_def ReadRune_def)

text \<open>
  C5, amended. When the first rune read is \<open>0x00\<close>, \<open>0x1f\<close> or \<open>0x7f\<close>, \<^verbatim>\<open>readKey\<close>
  returns Ctrl+\<open>`\<close>, Ctrl+\<open>/\<close> and the unmodified Backspace key, with no error and
  without reading further. No first rune other than the escape is decoded to the key \<open>^\<close>
  with Ctrl.
\<close>

theorem readKey_single_byte:
  assumes "ReadRune rd = (Inr r, rd1)"
  shows "(r = 0x00 \<longrightarrow>
            readKey rd = ((\<lparr>rune = of_char CHR ''`'', Mod = Ctrl\<rparr>, None), rd1)) \<and>
         (r = 0x1f \<longrightarrow>
            readKey rd = ((\<lparr>rune = of_char CHR ''/'', Mod = Ctrl\<rparr>, None), rd1)) \<and>
         (r = 0x7f \<longrightarrow>
            readKey rd = ((\<lparr>rune = Backspace, Mod = 0\<rparr>, None), rd1)) \<and>
         (r \<noteq> 0x1b \<longrightarrow>
            fst (readKey rd) \<noteq> (\<lparr>rune = of_char CHR ''^'', Mod = Ctrl\<rparr>, None))"
  using assms by (auto simp: readKey_def Ctrl_def Backspace_def)

theorem readKey_single_byte_witness:
  "readKey (runes [0x00]) =
     ((\<lparr>rune = of_char CHR ''`'', Mod = Ctrl\<rparr>, None), runes []) \<and>
   readKey (runes [0x1f]) =
     ((\<lparr>rune = of_char CHR ''/'', Mod = Ctrl\<rparr>, None), runes []) \<and>
   readKey (runes [0x7f]) = ((\<lparr>rune = Backspace, Mod = 0\<rparr>, None), runes []) \<and>
   fst (readKey (runes [0x1e])) \<noteq> (\<lparr>rune = of_char CHR ''^'', Mod = Ctrl\<rparr>, None)"
proof -
  have r: "ReadRune (runes [x]) = (Inr x, runes [])" for x
    by (simp add: ReadRune_def runes_def)
  show ?thesis
    using readKey_single_byte [OF r [of "0x00"]] readKey_single_byte [OF r [of "0x1f"]]
      readKey_single_byte [OF r [of "0x7f"]] readKey_single_byte [OF r [of "0x1e"]]
    by simp
qed

text \<open>
  C8. Whenever the first rune read is the escape, \<^verbatim>\<open>readKey\<close> leaves the timeout of the
  timed byte source at \<open>-1\<close>, on every path through the escape branch; and a \<^verbatim>\<open>readKey\<close>
  that starts with a blocking (negative) timeout ends with one, on every input.
\<close>

theorem readKey_restores_timeout:
  "(fst (ReadRune rd) = Inr 0x1b \<longrightarrow> Timeout (snd (readKey rd)) = - 1) \<and>
   (Timeout rd < 0 \<longrightarrow> Timeout (snd (readKey rd)) < 0)"
  unfolding readKey_def
  by (auto simp: ReadRune_def split: prod.splits sum.splits if_splits)

theorem readKey_restores_timeout_witness:
  "fst (ReadRune \<lparr>Timeout = - 1, input = [Rune 0x1b, Silence]\<rparr>) = Inr 0x1b \<and>
   Timeout (snd (readKey \<lparr>Timeout = - 1, input = [Rune 0x1b, Silence]\<rparr>)) = - 1 \<and>
   fst (readKey \<lparr>Timeout = - 1, input = [Rune 0x1b, Silence]\<rparr>) =
     (\<lparr>rune = of_char CHR ''['', Mod = Ctrl\<rparr>, None)"
  using readKey_restores_timeout [of "\<lparr>Timeout = - 1, input = [Rune 0x1b, Silence]\<rparr>"]
  by (simp add: readKey_def ReadRune_def escBranch_def EscTimeout_def)

text \<open>
  C10. Whenever \<^verbatim>\<open>readKey\<close> returns an error, the key it returns with it is \<open>ZeroKey\<close>.
\<close>

theorem readKey_error_ZeroKey:
  "readKey rd = ((k, Some e), rd') \<Longrightarrow> k = ZeroKey"
  unfolding readKey_def
  by (auto simp: ZeroKey_def split: prod.splits sum.splits if_splits dest: escBranch_err)

theorem readKey_error_ZeroKey_witness:
  "readKey (runes (0x1b # str ''Ox'')) = ((ZeroKey, Some BadEscSeq), runes []) \<and>
   ZeroKey = \<lparr>rune = 0, Mod = 0\<rparr>"
proof -
  have h: "readKey (runes (0x1b # str ''Ox'')) =
      ((\<lparr>rune = 0, Mod = 0\<rparr>, Some BadEscSeq), runes [])"
    by (simp add: readKey_def runes_def str_def ReadRune_def escBranch_def g3Seq_def
        ZeroKey_def)
  from readKey_error_ZeroKey [OF h] h show ?thesis by simp
qed

section \<open>Properties of the cell buffer\<close>

lemma appendCell_Some:
  "cells b \<noteq> [] \<Longrightarrow>
   appendCell b c =
     Some (b\<lparr>cells := butlast (cells b) @ [last (cells b) @ [c]],
              col := col b + uint (cwidth c)\<rparr>)"
proof -
  assume ne: "cells b \<noteq> []"
  then obtain ls l where eq: "cells b = ls @ [l]"
    by (metis append_butlast_last_id)
  show ?thesis
    by (simp add: appendCell_def eq nth_append)
qed

lemma appendCells_Some:
  "cells b \<noteq> [] \<Longrightarrow>
   appendCells n c b =
     Some (b\<lparr>cells := butlast (cells b) @ [last (cells b) @ replicate n c],
              col := col b + int n * uint (cwidth c)\<rparr>)"
proof (induction n arbitrary: b)
  case 0
  then show ?case by simp
next
  case (Suc n)
  then show ?case
    by (simp add: appendCell_Some replicate_append_same algebra_simps)
qed

text \<open>
  Where \<^verbatim>\<open>make\<close> does not panic, \<^verbatim>\<open>newline\<close> adds one line that holds the padding, and the
  column is the indent (or \<open>0\<close> for an indent that is not positive).
\<close>

lemma newline_Some:
  "0 \<le> width b \<Longrightarrow>
   newline b =
     Some (b\<lparr>cells := cells b @ [replicate (nat (indent b)) space],
              col := max 0 (indent b)\<rparr>)"
  by (auto simp: newline_def appendLine_def appendCells_Some space_def max_def)

lemma write_over:
  assumes "r \<noteq> 0x0a" and "IsPrint r" and "cells b \<noteq> []" and "0 \<le> width b"
    and "col b + wcwidth r > width b"
  shows "write IsPrint wcwidth b r attr =
          Some (b\<lparr>cells := cells b @
                     [replicate (nat (indent b)) space @
                      [\<lparr>crune = r, cwidth = word_of_int (wcwidth r), cattr = attr\<rparr>]],
                   col := max 0 (indent b) + uint (word_of_int (wcwidth r) :: 8 word)\<rparr>)"
  using assms
  by (simp add: write_def Let_def newline_Some appendCell_Some)

lemma write_exact:
  assumes "r \<noteq> 0x0a" and "IsPrint r" and "cells b \<noteq> []" and "0 \<le> width b"
    and "col b + wcwidth r = width b"
  shows "write IsPrint wcwidth b r attr =
          Some (b\<lparr>cells := butlast (cells b) @
                     [last (cells b) @
                      [\<lparr>crune = r, cwidth = word_of_int (wcwidth r), cattr = attr\<rparr>]] @
                     [replicate (nat (indent b)) space],
                   col := max 0 (indent b)\<rparr>)"
  using assms
  by (simp add: write_def Let_def newline_Some appendCell_Some)

lemma lineWidth_snoc: "lineWidth (xs @ [c]) = lineWidth xs + uint (cwidth c)"
  by (simp add: lineWidth_def)

lemma lineWidth_replicate_space: "lineWidth (replicate n space) = int n"
  by (induction n) (simp_all add: lineWidth_def space_def)

lemma uint_byte_le: "0 \<le> wd \<Longrightarrow> uint (word_of_int wd :: 8 word) \<le> wd"
  by (simp add: uint_word_of_int take_bit_eq_mod zmod_le_nonneg_dividend)

text \<open>
  One call of \<^verbatim>\<open>write\<close> keeps a buffer within \<open>fits\<close>, and neither panics nor changes the
  width or the indent, when the width oracle answers 0, 1 or 2 on the printable runes.
\<close>

lemma write_fits:
  assumes orc: "\<forall>r. IsPrint r \<longrightarrow> 0 \<le> wcwidth r \<and> wcwidth r \<le> 2"
    and b: "fits b"
  shows "\<exists>b'. write IsPrint wcwidth b r attr = Some b' \<and> fits b' \<and>
               width b' = width b \<and> indent b' = indent b"
proof -
  from b have ne: "cells b \<noteq> []" and w0: "0 \<le> width b"
    and no: "list_all (\<lambda>l. lineWidth l \<le> width b) (cells b)"
    and lastc: "lineWidth (last (cells b)) \<le> col b"
    and ind: "max 0 (indent b) + 2 \<le> width b"
    by (auto simp: fits_def noOverflow_def)
  from ind have ind': "indent b + 2 \<le> width b" "2 \<le> width b"
    by (simp_all add: max_def split: if_splits)
  from ne no have nob: "list_all (\<lambda>l. lineWidth l \<le> width b) (butlast (cells b))"
    by (metis append_butlast_last_id list_all_append)
  show ?thesis
  proof (cases "r = 0x0a")
    case True
    with b ne w0 no ind ind' show ?thesis
      by (auto simp: write_def newline_Some fits_def noOverflow_def lineWidth_replicate_space)
  next
    case nl: False
    show ?thesis
    proof (cases "IsPrint r")
      case False
      with nl b show ?thesis by (simp add: write_def)
    next
      case True
      with orc have wd: "0 \<le> wcwidth r" "wcwidth r \<le> 2" by auto
      let ?c = "\<lparr>crune = r, cwidth = word_of_int (wcwidth r), cattr = attr\<rparr>"
      have cw: "uint (cwidth ?c) \<le> wcwidth r" "0 \<le> uint (cwidth ?c)"
        using wd by (simp_all add: uint_byte_le)
      consider (over) "col b + wcwidth r > width b" | (exact) "col b + wcwidth r = width b"
        | (under) "col b + wcwidth r < width b" by linarith
      then show ?thesis
      proof cases
        case over
        have "write IsPrint wcwidth b r attr =
          Some (b\<lparr>cells := cells b @ [replicate (nat (indent b)) space @ [?c]],
                   col := max 0 (indent b) + uint (word_of_int (wcwidth r) :: 8 word)\<rparr>)"
          using write_over [of r IsPrint b wcwidth attr] nl True ne w0 over by simp
        moreover have "lineWidth (replicate (nat (indent b)) space @ [?c]) \<le> width b"
          using cw wd ind ind' by (auto simp: lineWidth_snoc lineWidth_replicate_space)
        moreover have "lineWidth (replicate (nat (indent b)) space @ [?c])
            \<le> max 0 (indent b) + uint (word_of_int (wcwidth r) :: 8 word)"
          by (auto simp: lineWidth_snoc lineWidth_replicate_space)
        ultimately show ?thesis
          using no ind ind' by (auto simp: fits_def noOverflow_def)
      next
        case exact
        have "write IsPrint wcwidth b r attr =
          Some (b\<lparr>cells := butlast (cells b) @ [last (cells b) @ [?c]] @
                     [replicate (nat (indent b)) space],
                   col := max 0 (indent b)\<rparr>)"
          using write_exact [of r IsPrint b wcwidth attr] nl True ne w0 exact by simp
        moreover have "lineWidth (last (cells b) @ [?c]) \<le> width b"
          using cw lastc exact by (auto simp: lineWidth_snoc)
        moreover have "lineWidth (replicate (nat (indent b)) space) \<le> width b"
          using ind ind' by (simp add: lineWidth_replicate_space)
        ultimately show ?thesis
          using nob ind ind' by (auto simp: fits_def noOverflow_def lineWidth_replicate_space)
      next
        case under
        have "write IsPrint wcwidth b r attr =
          Some (b\<lparr>cells := butlast (cells b) @ [last (cells b) @ [?c]],
                   col := col b + uint (cwidth ?c)\<rparr>)"
          using nl True under by (simp add: write_def Let_def appendCell_Some [OF ne])
        moreover have "lineWidth (last (cells b) @ [?c]) \<le> width b"
          using cw lastc under by (auto simp: lineWidth_snoc)
        moreover have "lineWidth (last (cells b) @ [?c]) \<le> col b + uint (cwidth ?c)"
          using lastc by (auto simp: lineWidth_snoc)
        ultimately show ?thesis
          using nob ind ind' by (auto simp: fits_def noOverflow_def)
      qed
    qed
  qed
qed

lemma writeCalls_fits:
  assumes orc: "\<forall>r. IsPrint r \<longrightarrow> 0 \<le> wcwidth r \<and> wcwidth r \<le> 2"
  shows "fits b \<Longrightarrow>
    \<exists>b'. writeCalls IsPrint wcwidth b calls = Some b' \<and> fits b' \<and> width b' = width b"
proof (induction calls arbitrary: b)
  case Nil
  then show ?case by simp
next
  case (Cons call calls)
  obtain r attr where call: "call = (r, attr)" by (cases call)
  from write_fits [OF orc Cons.prems, of r attr] obtain b1
    where b1: "write IsPrint wcwidth b r attr = Some b1" "fits b1" "width b1 = width b"
    by blast
  from Cons.IH [OF b1(2)] b1 call show ?case by auto
qed

lemma oracle3: "\<forall>r. IsPrint3 r \<longrightarrow> 0 \<le> wcwidth3 r \<and> wcwidth3 r \<le> 2"
  by (simp add: wcwidth3_def)

text \<open>
  C3, as stated, fails on a buffer of width 1: a rune of two columns (here U+4E2D) written to
  the fresh buffer is put on a new line, which then holds two columns.
\<close>

theorem write_overflow_counterexample:
  "newBuffer 1 =
     Some \<lparr>width = 1, col = 0, indent = 0, cells = [[]], dot = \<lparr>pline = 0, pcol = 0\<rparr>\<rparr> \<and>
   write IsPrint3 wcwidth3
     \<lparr>width = 1, col = 0, indent = 0, cells = [[]], dot = \<lparr>pline = 0, pcol = 0\<rparr>\<rparr>
     0x4e2d '''' =
     Some \<lparr>width = 1, col = 2, indent = 0,
            cells = [[], [\<lparr>crune = 0x4e2d, cwidth = 2, cattr = ''''\<rparr>]],
            dot = \<lparr>pline = 0, pcol = 0\<rparr>\<rparr> \<and>
   lineWidth [\<lparr>crune = 0x4e2d, cwidth = 2, cattr = ''''\<rparr>] = 2 \<and>
   \<not> noOverflow \<lparr>width = 1, col = 2, indent = 0,
            cells = [[], [\<lparr>crune = 0x4e2d, cwidth = 2, cattr = ''''\<rparr>]],
            dot = \<lparr>pline = 0, pcol = 0\<rparr>\<rparr>"
  by (simp add: newBuffer_def write_def IsPrint3_def wcwidth3_def newline_def appendLine_def
      appendCell_def lineWidth_def noOverflow_def)

text \<open>
  C3, amended. Let the width oracle answer 0, 1 or 2 on every printable rune, and let the
  buffer have at least one line, no line wider than its width, a column that is at least the
  width of its last line, and an indent that leaves room for a cell of two columns
  (\<open>max 0 indent + 2 \<le> width\<close>; a fresh buffer of width at least 2 is such a buffer). Then
  every sequence of calls of \<^verbatim>\<open>write\<close> returns, leaves the width as it was, and leaves
  no line whose summed cell widths exceed the width.
\<close>

theorem write_no_overflow:
  assumes "\<forall>r. IsPrint r \<longrightarrow> 0 \<le> wcwidth r \<and> wcwidth r \<le> 2"
    and "cells b \<noteq> []"
    and "noOverflow b"
    and "lineWidth (last (cells b)) \<le> col b"
    and "max 0 (indent b) + 2 \<le> width b"
  shows "\<exists>b'. writeCalls IsPrint wcwidth b calls = Some b' \<and> width b' = width b \<and>
              noOverflow b'"
proof -
  from assms(2-5) have "fits b" by (simp add: fits_def)
  from writeCalls_fits [OF assms(1) this, of calls] show ?thesis
    by (auto simp: fits_def)
qed

theorem write_no_overflow_witness:
  "newBuffer 2 =
     Some \<lparr>width = 2, col = 0, indent = 0, cells = [[]], dot = \<lparr>pline = 0, pcol = 0\<rparr>\<rparr> \<and>
   (\<exists>b'. writeCalls IsPrint3 wcwidth3
            \<lparr>width = 2, col = 0, indent = 0, cells = [[]], dot = \<lparr>pline = 0, pcol = 0\<rparr>\<rparr>
            [(of_char CHR ''a'', ''''), (0x4e2d, ''1''), (0x301, ''1''), (0x0a, '''')] = Some b' \<and>
          width b' = 2 \<and> noOverflow b')"
proof -
  let ?b = "\<lparr>width = 2, col = 0, indent = 0, cells = [[]], dot = \<lparr>pline = 0, pcol = 0\<rparr>\<rparr>"
  have "cells ?b \<noteq> []" "noOverflow ?b" "lineWidth (last (cells ?b)) \<le> col ?b"
    "max 0 (indent ?b) + 2 \<le> width ?b"
    by (simp_all add: noOverflow_def lineWidth_def)
  from write_no_overflow [OF oracle3 this]
  have "\<exists>b'. writeCalls IsPrint3 wcwidth3 ?b calls = Some b' \<and> width b' = 2 \<and> noOverflow b'"
    for calls
    by simp
  moreover have "newBuffer 2 = Some ?b"
    by (simp add: newBuffer_def)
  ultimately show ?thesis by blast
qed

text \<open>
  C4. For a printable rune other than the line feed, written to a buffer whose column is \<open>c\<close>
  and whose width is \<open>W\<close>, with \<open>w\<close> the width of the rune: if \<open>c + w > W\<close>, the buffer
  gains a new line that holds the indent padding followed by the cell; if \<open>c + w = W\<close>, the
  cell is appended to the last line and a new line that holds only the indent padding
  follows it, the column being the indent.
\<close>

theorem write_wrap:
  assumes "r \<noteq> 0x0a" and "IsPrint r" and "cells b \<noteq> []" and "0 \<le> width b"
  shows
    "(col b + wcwidth r > width b \<longrightarrow>
        write IsPrint wcwidth b r attr =
          Some (b\<lparr>cells := cells b @
                     [replicate (nat (indent b)) space @
                      [\<lparr>crune = r, cwidth = word_of_int (wcwidth r), cattr = attr\<rparr>]],
                   col := max 0 (indent b) + uint (word_of_int (wcwidth r) :: 8 word)\<rparr>)) \<and>
     (col b + wcwidth r = width b \<longrightarrow>
        write IsPrint wcwidth b r attr =
          Some (b\<lparr>cells := butlast (cells b) @
                     [last (cells b) @
                      [\<lparr>crune = r, cwidth = word_of_int (wcwidth r), cattr = attr\<rparr>]] @
                     [replicate (nat (indent b)) space],
                   col := max 0 (indent b)\<rparr>))"
  using assms
  by (simp add: write_def Let_def newline_Some appendCell_Some)

theorem write_wrap_witness:
  "write IsPrint3 wcwidth3
     \<lparr>width = 4, col = 3, indent = 1,
        cells = [[space, space, space]], dot = \<lparr>pline = 0, pcol = 0\<rparr>\<rparr>
     0x4e2d ''1'' =
     Some \<lparr>width = 4, col = 3, indent = 1,
            cells = [[space, space, space],
                     [space, \<lparr>crune = 0x4e2d, cwidth = 2, cattr = ''1''\<rparr>]],
            dot = \<lparr>pline = 0, pcol = 0\<rparr>\<rparr> \<and>
   write IsPrint3 wcwidth3
     \<lparr>width = 4, col = 3, indent = 1,
        cells = [[space, space, space]], dot = \<lparr>pline = 0, pcol = 0\<rparr>\<rparr>
     (of_char CHR ''a'') ''1'' =
     Some \<lparr>width = 4, col = 1, indent = 1,
            cells = [[space, space, space, \<lparr>crune = of_char CHR ''a'', cwidth = 1, cattr = ''1''\<rparr>],
                     [space]],
            dot = \<lparr>pline = 0, pcol = 0\<rparr>\<rparr>"
proof -
  let ?b = "\<lparr>width = 4, col = 3, indent = 1,
        cells = [[space, space, space]], dot = \<lparr>pline = 0, pcol = 0\<rparr>\<rparr>"
  have wide: "(0x4e2d :: rune) \<noteq> 0x0a" "IsPrint3 0x4e2d"
    and narrow: "(of_char CHR ''a'' :: rune) \<noteq> 0x0a" "IsPrint3 (of_char CHR ''a'')"
    and b: "cells ?b \<noteq> []" "0 \<le> width ?b"
    by (simp_all add: IsPrint3_def)
  from write_wrap [of "0x4e2d" IsPrint3 ?b wcwidth3 "''1''"]
    write_wrap [of "of_char CHR ''a''" IsPrint3 ?b wcwidth3 "''1''"] wide narrow b
  show ?thesis
    by (simp add: wcwidth3_def)
qed

section \<open>Properties of the screen writer\<close>

lemma commitCells_append:
  "commitCells a (xs @ ys) =
     (case commitCells a xs of (a1, o1) \<Rightarrow>
        case commitCells a1 ys of (a2, o2) \<Rightarrow> (a2, o1 @ o2))"
  by (induction xs arbitrary: a) (auto split: prod.splits)

lemma commitLines_append:
  "commitLines i a (ls1 @ ls2) =
     (case commitLines i a ls1 of (a1, o1) \<Rightarrow>
        case commitLines (i + length ls1) a1 ls2 of (a2, o2) \<Rightarrow> (a2, o1 @ o2))"
  by (induction ls1 arbitrary: i a) (auto split: prod.splits)

text \<open>
  C6, as stated, fails for a cell of width 0. The buffer below is what \<^verbatim>\<open>write\<close> makes of
  the letter \<open>e\<close> at the empty attribute followed by the combining acute accent U+0301 at
  the attribute \<open>1\<close>. When the accent is reached the attribute in force is the empty one,
  yet its code point is written with no SGR sequence before it, and none follows.
\<close>

theorem commit_zero_width_counterexample:
  "write IsPrint3 wcwidth3
     \<lparr>width = 80, col = 1, indent = 0,
        cells = [[\<lparr>crune = of_char CHR ''e'', cwidth = 1, cattr = ''''\<rparr>]],
        dot = \<lparr>pline = 0, pcol = 1\<rparr>\<rparr>
     0x301 ''1'' =
     Some \<lparr>width = 80, col = 1, indent = 0,
            cells = [[\<lparr>crune = of_char CHR ''e'', cwidth = 1, cattr = ''''\<rparr>,
                      \<lparr>crune = 0x301, cwidth = 0, cattr = ''1''\<rparr>]],
            dot = \<lparr>pline = 0, pcol = 1\<rparr>\<rparr> \<and>
   commitBytes
     \<lparr>oldBuf = \<lparr>width = 0, col = 0, indent = 0, cells = [[]],
                 dot = \<lparr>pline = 0, pcol = 0\<rparr>\<rparr>\<rparr>
     \<lparr>width = 80, col = 1, indent = 0,
        cells = [[\<lparr>crune = of_char CHR ''e'', cwidth = 1, cattr = ''''\<rparr>,
                  \<lparr>crune = 0x301, cwidth = 0, cattr = ''1''\<rparr>]],
        dot = \<lparr>pline = 0, pcol = 1\<rparr>\<rparr> =
     [CHR 0x0D, CHR 0x1B, CHR ''['', CHR ''J'', CHR ''e'', CHR 0xCC, CHR 0x81] \<and>
   encodeRune 0x301 = [CHR 0xCC, CHR 0x81]"
  by (simp add: write_def IsPrint3_def wcwidth3_def appendCell_def commitBytes_def
      encodeRune_def char_of_def deltaPos_def cursor_def ESC_def)

text \<open>
  C6, amended. In the loops of \<^verbatim>\<open>commitBuffer\<close>, let the cell \<open>c\<close> stand in a line after
  the cells \<open>xs\<close> and before the cells \<open>ys\<close>, with the lines \<open>ls1\<close> above and \<open>ls2\<close>
  below, and let \<open>a2\<close> be the attribute set last when \<open>c\<close> is reached. The bytes written
  for \<open>c\<close> are the SGR reset followed by the attribute of \<open>c\<close>, and then its code point,
  when the width of \<open>c\<close> is not zero and its attribute differs from \<open>a2\<close>; they are the
  code point alone otherwise, and then the attribute set last stays \<open>a2\<close>.
\<close>

theorem commitLines_cell:
  "commitLines 0 '''' (ls1 @ (xs @ c # ys) # ls2) =
     (case commitLines 0 '''' ls1 of (a1, o1) \<Rightarrow>
      case commitCells a1 xs of (a2, o2) \<Rightarrow>
      case commitCells (if cwidth c > 0 \<and> cattr c \<noteq> a2 then cattr c else a2) ys of
        (a3, o3) \<Rightarrow>
      case commitLines (length ls1 + 1) a3 ls2 of (a4, o4) \<Rightarrow>
        (a4, o1 @ (if length ls1 > 0 then [CHR 0x0A] else []) @ o2 @
             (if cwidth c > 0 \<and> cattr c \<noteq> a2 then sgr (cattr c) else []) @
             encodeRune (crune c) @ o3 @ o4))"
  by (auto simp: commitLines_append commitCells_append split: prod.splits)

theorem commitLines_cell_witness:
  "commitLines 0 ''''
     ([] @ ([\<lparr>crune = of_char CHR ''e'', cwidth = 1, cattr = ''''\<rparr>] @
            \<lparr>crune = of_char CHR ''f'', cwidth = 1, cattr = ''1''\<rparr> # []) # []) =
     (''1'', ''e'' @ sgr ''1'' @ ''f'')"
  using commitLines_cell [of "[]" "[\<lparr>crune = of_char CHR ''e'', cwidth = 1, cattr = ''''\<rparr>]"
      "\<lparr>crune = of_char CHR ''f'', cwidth = 1, cattr = ''1''\<rparr>" "[]" "[]"]
  by (simp add: encodeRune_def char_of_def)

text \<open>
  C7. \<^verbatim>\<open>commitBuffer\<close> hands the accumulated bytes to the terminal file in one call. When
  that call fails, its error is returned and the writer, with its previous buffer, is as it
  was; when it succeeds, no error is returned and the previous buffer is the new one.
\<close>

theorem commitBuffer_atomic:
  "(fileWrite (commitBytes w buf) = Some err \<longrightarrow>
      commitBuffer fileWrite w buf = (Some err, w)) \<and>
   (fileWrite (commitBytes w buf) = None \<longrightarrow>
      commitBuffer fileWrite w buf = (None, w\<lparr>oldBuf := buf\<rparr>))"
  by (simp add: commitBuffer_def)

text \<open>
  A terminal file on which every write fails with the same error, and one that accepts every
  write; the previous buffer is the initial one of \<^verbatim>\<open>newWriter\<close>, of width 0.
\<close>

theorem commitBuffer_atomic_witness:
  "commitBuffer (\<lambda>bytes. Some (IOError 5))
     \<lparr>oldBuf = \<lparr>width = 0, col = 0, indent = 0, cells = [[]],
                 dot = \<lparr>pline = 0, pcol = 0\<rparr>\<rparr>\<rparr>
     \<lparr>width = 80, col = 1, indent = 0, cells = [[space]], dot = \<lparr>pline = 0, pcol = 1\<rparr>\<rparr> =
     (Some (IOError 5),
      \<lparr>oldBuf = \<lparr>width = 0, col = 0, indent = 0, cells = [[]],
                  dot = \<lparr>pline = 0, pcol = 0\<rparr>\<rparr>\<rparr>) \<and>
   commitBuffer (\<lambda>bytes. None)
     \<lparr>oldBuf = \<lparr>width = 0, col = 0, indent = 0, cells = [[]],
                 dot = \<lparr>pline = 0, pcol = 0\<rparr>\<rparr>\<rparr>
     \<lparr>width = 80, col = 1, indent = 0, cells = [[space]], dot = \<lparr>pline = 0, pcol = 1\<rparr>\<rparr> =
     (None,
      \<lparr>oldBuf = \<lparr>width = 80, col = 1, indent = 0, cells = [[space]],
                  dot = \<lparr>pline = 0, pcol = 1\<rparr>\<rparr>\<rparr>)"
  using
    commitBuffer_atomic [of "\<lambda>bytes. Some (IOError 5)"
      "\<lparr>oldBuf = \<lparr>width = 0, col = 0, indent = 0, cells = [[]],
                  dot = \<lparr>pline = 0, pcol = 0\<rparr>\<rparr>\<rparr>"
      "\<lparr>width = 80, col = 1, indent = 0, cells = [[space]], dot = \<lparr>pline = 0, pcol = 1\<rparr>\<rparr>"
      "IOError 5"]
    commitBuffer_atomic [of "\<lambda>bytes. None"
      "\<lparr>oldBuf = \<lparr>width = 0, col = 0, indent = 0, cells = [[]],
                  dot = \<lparr>pline = 0, pcol = 0\<rparr>\<rparr>\<rparr>"
      "\<lparr>width = 80, col = 1, indent = 0, cells = [[space]], dot = \<lparr>pline = 0, pcol = 1\<rparr>\<rparr>"]
  by simp

section \<open>Properties of refresh\<close>

text \<open>
  The counter starts at \<open>0\<close> and every rune that \<^verbatim>\<open>range\<close> yields has a positive
  \<^verbatim>\<open>RuneLen\<close>, so after a round of the loop the counter is positive. With
  \<^verbatim>\<open>comp.start = 0\<close> the test \<^verbatim>\<open>i == comp.start\<close> therefore never holds: the line is
  the one that \<^verbatim>\<open>refresh\<close> builds when no candidate is selected.
\<close>

lemma runeStep_start_zero:
  assumes "completion bs = Some c" and "cstart c = 0" and "0 \<le> li st" and "\<not> suppress st"
    and "0 < RuneLen r"
  shows "runeStep IsPrint wcwidth A bs ty st r =
           runeStep IsPrint wcwidth A (bs\<lparr>completion := Some (c\<lparr>current := - 1\<rparr>)\<rparr>) ty st r"
    and "runeStep IsPrint wcwidth A bs ty st r = Some st' \<Longrightarrow> 0 \<le> li st' \<and> \<not> suppress st'"
  using assms by (auto simp: runeStep_def Let_def split: option.splits if_splits)

lemma runesLoop_start_zero:
  assumes "completion bs = Some c" and "cstart c = 0"
  shows "0 \<le> li st \<Longrightarrow> \<not> suppress st \<Longrightarrow> \<forall>r\<in>set rs. 0 < RuneLen r \<Longrightarrow>
    runesLoop IsPrint wcwidth A bs ty st rs =
      runesLoop IsPrint wcwidth A (bs\<lparr>completion := Some (c\<lparr>current := - 1\<rparr>)\<rparr>) ty st rs \<and>
    (\<forall>st'. runesLoop IsPrint wcwidth A bs ty st rs = Some st' \<longrightarrow> 0 \<le> li st' \<and> \<not> suppress st')"
proof (induction rs arbitrary: st)
  case Nil
  then show ?case by simp
next
  case (Cons r rs)
  from Cons.prems have r: "0 < RuneLen r" by simp
  note step = runeStep_start_zero [OF assms Cons.prems(1,2) r, of IsPrint wcwidth A ty]
  show ?case
  proof (cases "runeStep IsPrint wcwidth A bs ty st r")
    case None
    with step(1) show ?thesis by simp
  next
    case (Some st1)
    from step(2) [OF Some] Cons.prems(3) Cons.IH [of st1] Some step(1) show ?thesis
      by simp
  qed
qed

lemma tokensLoop_start_zero:
  assumes "completion bs = Some c" and "cstart c = 0"
  shows "0 \<le> li st \<Longrightarrow> \<not> suppress st \<Longrightarrow> \<forall>tok\<in>set toks. \<forall>r\<in>set (Val tok). 0 < RuneLen r \<Longrightarrow>
    tokensLoop IsPrint wcwidth A bs st toks =
      tokensLoop IsPrint wcwidth A (bs\<lparr>completion := Some (c\<lparr>current := - 1\<rparr>)\<rparr>) st toks"
proof (induction toks arbitrary: st)
  case Nil
  then show ?case by simp
next
  case (Cons tok toks)
  from Cons.prems have v: "\<forall>r\<in>set (Val tok). 0 < RuneLen r" by simp
  let ?bs = "bs\<lparr>completion := Some (c\<lparr>current := - 1\<rparr>)\<rparr>"
  note loop = runesLoop_start_zero [OF assms Cons.prems(1,2) v, of IsPrint wcwidth A "Typ tok"]
  then have eq: "runesLoop IsPrint wcwidth A ?bs (Typ tok) st (Val tok) =
      runesLoop IsPrint wcwidth A bs (Typ tok) st (Val tok)"
    by simp
  show ?case
  proof (cases "runesLoop IsPrint wcwidth A bs (Typ tok) st (Val tok)")
    case None
    with eq show ?thesis by simp
  next
    case (Some st1)
    with loop have "0 \<le> li st1" "\<not> suppress st1" by simp_all
    with Cons.prems(3) have "tokensLoop IsPrint wcwidth A bs st1 toks =
        tokensLoop IsPrint wcwidth A ?bs st1 toks"
      by (intro Cons.IH) simp_all
    with Some eq show ?thesis by simp
  qed
qed

lemma refreshLine_start_zero_unselected:
  assumes "completion bs = Some c" and "cstart c = 0"
    and "\<forall>tok\<in>set (tokens bs). \<forall>r\<in>set (Val tok). 0 < RuneLen r"
  shows "refreshLine IsPrint wcwidth A w bs =
           refreshLine IsPrint wcwidth A w (bs\<lparr>completion := Some (c\<lparr>current := - 1\<rparr>)\<rparr>)"
  using assms tokensLoop_start_zero [OF assms(1,2), of _ "tokens bs" IsPrint wcwidth A]
  by (simp add: refreshLine_def Let_def split: option.splits)

text \<open>
  C9. The editor state below has the text \<open>ab\<close> in one token, the dot after it, and an
  active completion that replaces the bytes from \<open>0\<close> to \<open>2\<close> by the selected candidate
  \<open>abc\<close>. The counter is compared with \<^verbatim>\<open>comp.start\<close> only after it has been advanced
  past a rune, so it never equals \<open>0\<close> there: the candidate is not written, nothing is
  suppressed, and the line holds the original text.
\<close>

theorem refreshLine_start_zero:
  "refreshLine IsPrint3 wcwidth3 attrs3 80
     \<lparr>tokens = [\<lparr>Typ = 0, Val = str ''ab''\<rparr>], prompt = str ''> '', edot = 2,
        completion = Some \<lparr>cstart = 0, cend = 2, ctyp = 1,
          candidates = [\<lparr>ctext = str ''abc'',
             parts = [\<lparr>ptext = str ''ab'', completed = True\<rparr>,
                      \<lparr>ptext = str ''c'', completed = False\<rparr>]\<rparr>],
          current = 0\<rparr>\<rparr> =
     Some \<lparr>lbuf =
        \<lparr>width = 80, col = 4, indent = 2,
           cells =
             [[\<lparr>crune = of_char CHR ''>'', cwidth = 1, cattr = ''35''\<rparr>,
               \<lparr>crune = of_char CHR '' '', cwidth = 1, cattr = ''35''\<rparr>,
               \<lparr>crune = of_char CHR ''a'', cwidth = 1, cattr = ''32''\<rparr>,
               \<lparr>crune = of_char CHR ''b'', cwidth = 1, cattr = ''32''\<rparr>]],
           dot = \<lparr>pline = 0, pcol = 4\<rparr>\<rparr>,
        li = 2, suppress = False\<rparr>"
  by (simp add: refreshLine_def newBuffer_def str_def write_def IsPrint3_def wcwidth3_def
      appendCell_def attrs3_def attrForType3_def runeStep_def RuneLen_def cursor_def)

end
